theory Spec2Isabelle
  imports Main
begin

section \<open>Host values used by \<open>act.ts\<close>\<close>

text \<open>
  The extension talks to its host (the editor's extension API and Node) through calls
  whose results the code only reads. The model keeps the values the code reads as
  records and turns every call into the host into an element of an effect trace, in the
  order the code makes the calls.
\<close>

record uri =
  scheme :: string
  query :: string
  fsPath :: string

text \<open>\<open>Workflow\<close> (imported from \<open>workflowsManager\<close>): the code reads \<open>name\<close> and \<open>uri\<close>.\<close>

record workflow =
  workflow_name :: string
  workflow_uri :: uri

text \<open>A component as \<open>getUnreadyComponents\<close> returns it: the code reads \<open>name\<close> only.\<close>

record component =
  component_name :: string

record workspaceFolder =
  folder_uri :: uri

text \<open>
  A JavaScript value as a property read of the installation table can yield it: a string
  the object literal holds, \<open>undefined\<close>, or a member the object inherits from
  \<open>Object.prototype\<close> (a function or an object, never a string).
\<close>

datatype jsvalue = Undefined | Str string | Inherited string

fun truthy :: "jsvalue \<Rightarrow> bool" where
  "truthy Undefined = False"
| "truthy (Str s) = (s \<noteq> [])"
| "truthy (Inherited k) = True"

datatype taskScope = ScopeGlobal | ScopeWorkspace | ScopeFolder workspaceFolder

datatype taskRevealKind = RevealAlways | RevealSilent | RevealNever

datatype taskPanelKind = PanelShared | PanelDedicated | PanelNew

datatype taskGroup = GroupClean | GroupBuild | GroupRebuild | GroupTest

record presentationOptions =
  reveal :: taskRevealKind
  focus :: bool
  clear :: bool
  close :: bool
  echo :: bool
  panel :: taskPanelKind
  showReuseMessage :: bool

text \<open>
  The two executions the code builds. \<open>CustomExecution\<close> is given a closure in the
  source; the closure reads \<open>workflow\<close>, \<open>command\<close> and \<open>workspaceFolder\<close> of
  the enclosing \<open>runCommand\<close>, which the constructor here carries.
\<close>

datatype execution =
    CustomExecution workflow string workspaceFolder
  | ShellExecution jsvalue

record task =
  name :: string
  detail :: string
  definition_type :: string
  source :: string
  scope :: taskScope
  isBackground :: bool
  presentation :: presentationOptions
  problemMatchers :: "string list"
  runOptions :: "(string \<times> string) list"
  group :: taskGroup
  execution :: execution

text \<open>
  The handler attached with \<open>.then\<close> to an error message: the first message of
  \<open>runCommand\<close> has one, the second has none.
\<close>

datatype thenHandler = NoHandler | FixHandler

datatype effect =
    GetUnreadyComponents
  | GetWorkspaceFolder uri
  | ShowErrorMessage string "string list" thenHandler
  | ExecuteCommand string
  | ExecuteTask task
  | WriteFire string
  | Spawn string string string
  | CloseFire int

text \<open>
  What the host answers: the result of \<open>componentsManager.getUnreadyComponents()\<close>,
  \<open>workspace.getWorkspaceFolder\<close>, \<open>env.shell\<close>, the string
  \<open>new Date().toLocaleTimeString()\<close> gives when the terminal opens, and the item the
  user picks on an error message (\<open>None\<close> when the message is dismissed).
\<close>

record host =
  unreadyComponents :: "component list"
  getWorkspaceFolder :: "uri \<Rightarrow> workspaceFolder option"
  shell :: string
  localeTime :: string
  picked :: "string option"

section \<open>Library functions of JavaScript and Node the code calls\<close>

definition CR :: char where
  "CR = CHR 0x0D"

definition LF :: char where
  "LF = CHR 0x0A"

definition CRLF :: string where
  "CRLF = [CR, LF]"

text \<open>\<open>Array.prototype.join\<close> on an array of strings.\<close>

fun join :: "string \<Rightarrow> string list \<Rightarrow> string" where
  "join sep [] = []"
| "join sep [x] = x"
| "join sep (x # y # ys) = x @ sep @ join sep (y # ys)"

text \<open>
  \<open>String.prototype.replaceAll\<close> with a string pattern and a replacement without
  \<open>$\<close> patterns: the matches are found left to right and do not overlap; the empty
  pattern matches before every character and at the end.
\<close>

fun replaceAll :: "string \<Rightarrow> string \<Rightarrow> string \<Rightarrow> string" where
  "replaceAll [] rep s = rep @ concat (map (\<lambda>c. c # rep) s)"
| "replaceAll (p # ps) rep [] = []"
| "replaceAll (p # ps) rep (c # cs) =
     (if take (Suc (length ps)) (c # cs) = p # ps
      then rep @ replaceAll (p # ps) rep (drop (length ps) cs)
      else c # replaceAll (p # ps) rep cs)"

text \<open>
  \<open>path.parse(p).base\<close> of Node's \<open>path\<close> module, which is \<open>path.win32\<close> when
  \<open>process.platform\<close> is \<open>win32\<close> and \<open>path.posix\<close> on every other platform.
  Both find the end of the root first and then scan the rest of the path from its end:
  trailing separators are skipped, and the base is what follows the last separator
  before them. \<open>last_part\<close> is that scan.
\<close>

definition isPosixPathSeparator :: "char \<Rightarrow> bool" where
  "isPosixPathSeparator c = (c = CHR ''/'')"

text \<open>On Windows the slash and the backslash both separate.\<close>

definition isPathSeparator :: "char \<Rightarrow> bool" where
  "isPathSeparator c = (c = CHR ''/'' \<or> c = CHR 0x5C)"

text \<open>A drive letter: \<open>A\<close> to \<open>Z\<close> or \<open>a\<close> to \<open>z\<close>.\<close>

definition isWindowsDeviceRoot :: "char \<Rightarrow> bool" where
  "isWindowsDeviceRoot c =
     (let code = (of_char c :: nat)
      in (65 \<le> code \<and> code \<le> 90) \<or> (97 \<le> code \<and> code \<le> 122))"

definition separator :: "string \<Rightarrow> char \<Rightarrow> bool" where
  "separator platform c =
     (if platform = ''win32'' then isPathSeparator c else isPosixPathSeparator c)"

definition last_part :: "(char \<Rightarrow> bool) \<Rightarrow> string \<Rightarrow> string" where
  "last_part sep s = rev (takeWhile (\<lambda>c. \<not> sep c) (dropWhile sep (rev s)))"

text \<open>\<open>path.posix.parse\<close>: the root is the leading slash of an absolute path.\<close>

definition posix_rootEnd :: "string \<Rightarrow> nat" where
  "posix_rootEnd path = (if path \<noteq> [] \<and> hd path = CHR ''/'' then 1 else 0)"

text \<open>
  \<open>path.win32.parse\<close>: the root is a UNC prefix (two separators, a server name,
  separators, a share name and the separator after it), a single leading separator, or
  a drive letter with its colon and the separator after it. \<open>j1\<close>, \<open>j2\<close> and
  \<open>j3\<close> are the values of the source's \<open>j\<close> after its three scanning loops.
\<close>

definition win32_rootEnd :: "string \<Rightarrow> nat" where
  "win32_rootEnd path =
     (let len = length path in
      if len \<le> 1 then 0
      else if isPathSeparator (path ! 0) then
        (if isPathSeparator (path ! 1) then
           (let j1 = 2 + length (takeWhile (\<lambda>c. \<not> isPathSeparator c) (drop 2 path)) in
            if j1 < len \<and> j1 \<noteq> 2 then
              (let j2 = j1 + length (takeWhile isPathSeparator (drop j1 path)) in
               if j2 < len \<and> j2 \<noteq> j1 then
                 (let j3 = j2 + length (takeWhile (\<lambda>c. \<not> isPathSeparator c) (drop j2 path)) in
                  if j3 = len then j3 else if j3 \<noteq> j2 then j3 + 1 else 1)
               else 1)
            else 1)
         else 1)
      else if isWindowsDeviceRoot (path ! 0) \<and> path ! 1 = CHR '':'' then
        (if len \<le> 2 then 2 else if isPathSeparator (path ! 2) then 3 else 2)
      else 0)"

definition path_parse_base :: "string \<Rightarrow> string \<Rightarrow> string" where
  "path_parse_base platform path =
     (if platform = ''win32''
      then last_part isPathSeparator (drop (win32_rootEnd path) path)
      else last_part isPosixPathSeparator (drop (posix_rootEnd path) path))"

text \<open>\<open>code || 0\<close> on an exit code that is a number, \<open>null\<close> or \<open>undefined\<close>.\<close>

fun or_zero :: "int option \<Rightarrow> int" where
  "or_zero None = 0"
| "or_zero (Some n) = (if n \<noteq> 0 then n else 0)"

section \<open>\<open>Act\<close>: running a workflow\<close>

definition base :: string where
  "base = ''act''"

text \<open>\<open>enum Option\<close>.\<close>

definition Workflows :: string where
  "Workflows = ''-W''"

definition Variable :: string where
  "Variable = ''-var''"

definition workflowTask :: "workflow \<Rightarrow> string \<Rightarrow> workspaceFolder \<Rightarrow> task" where
  "workflowTask w command folder =
     \<lparr> name = workflow_name w,
       detail = ''Run workflow'',
       definition_type = ''GitHub Local Actions'',
       source = ''GitHub Local Actions'',
       scope = ScopeFolder folder,
       isBackground = True,
       presentation =
         \<lparr> reveal = RevealAlways, focus = False, clear = True, close = False,
           echo = True, panel = PanelDedicated, showReuseMessage = False \<rparr>,
       problemMatchers = [],
       runOptions = [],
       group = GroupBuild,
       execution = CustomExecution w command folder \<rparr>"

text \<open>
  \<open>runCommand\<close>, up to its return: the calls into the host, in order. The callbacks it
  hands over (the \<open>.then\<close> handler, the terminal's \<open>open\<close>) run later and are
  \<open>thenHandler_run\<close> and \<open>pty_open\<close> below.
\<close>

definition runCommand :: "host \<Rightarrow> workflow \<Rightarrow> string \<Rightarrow> effect list" where
  "runCommand h w command =
     (let unready = unreadyComponents h in
      if length unready > 0 then
        [GetUnreadyComponents,
         ShowErrorMessage
           (''The following required components are not ready: ''
              @ join '', '' (map component_name unready))
           [''Fix...''] FixHandler]
      else
        (case getWorkspaceFolder h (workflow_uri w) of
           None \<Rightarrow>
             [GetUnreadyComponents, GetWorkspaceFolder (workflow_uri w),
              ShowErrorMessage ''Failed to detect workspace folder'' [] NoHandler]
         | Some folder \<Rightarrow>
             [GetUnreadyComponents, GetWorkspaceFolder (workflow_uri w),
              ExecuteTask (workflowTask w command folder)]))"

text \<open>
  \<open>runWorkflow\<close>; the platform decides which \<open>path\<close> module parses the file's
  path.
\<close>

definition runWorkflow_command :: "string \<Rightarrow> workflow \<Rightarrow> string" where
  "runWorkflow_command platform w =
     base @ '' '' @ Workflows @ '' '' @ [CHR 0x22] @ ''.github/workflows/''
       @ path_parse_base platform (fsPath (workflow_uri w)) @ [CHR 0x22]"

definition runWorkflow :: "string \<Rightarrow> host \<Rightarrow> workflow \<Rightarrow> effect list" where
  "runWorkflow platform h w = runCommand h w (runWorkflow_command platform w)"

text \<open>The handler of the first error message: \<open>value === 'Fix...'\<close>.\<close>

fun thenHandler_run :: "thenHandler \<Rightarrow> string option \<Rightarrow> effect list" where
  "thenHandler_run FixHandler value =
     (if value = Some ''Fix...'' then [ExecuteCommand ''components.focus''] else [])"
| "thenHandler_run NoHandler value = []"

text \<open>The eight writes of \<open>open\<close>, then the spawn.\<close>

definition header :: "host \<Rightarrow> workflow \<Rightarrow> string \<Rightarrow> string list" where
  "header h w command =
     [''Workflow:    '' @ workflow_name w @ CRLF,
      ''Path:        '' @ fsPath (workflow_uri w) @ CRLF,
      ''Command:     '' @ command @ CRLF,
      ''Environments: OSSBUILD'' @ CRLF,
      ''Variables:   VARIABLE1=ABC, VARIABLE2=DEF'' @ CRLF,
      ''Secrets:     SECRET1=ABC, SECRET2=DEF'' @ CRLF,
      ''Timestamp:   '' @ localeTime h @ CRLF,
      CRLF]"

definition pty_open :: "host \<Rightarrow> workflow \<Rightarrow> string \<Rightarrow> workspaceFolder \<Rightarrow> effect list" where
  "pty_open h w command folder =
     map WriteFire (header h w command)
       @ [Spawn command (fsPath (folder_uri folder)) (shell h)]"

text \<open>
  What the child process emits after the spawn, and the three handlers \<open>open\<close>
  registers on it. A chunk is the text \<open>data.toString()\<close> gives.
\<close>

datatype childEvent = StdoutData string | StderrData string | ChildClose "int option"

definition stdout_on_data :: "string \<Rightarrow> effect list" where
  "stdout_on_data data = [WriteFire (replaceAll [LF] CRLF data)]"

definition stderr_on_data :: "string \<Rightarrow> effect list" where
  "stderr_on_data data = [WriteFire data]"

definition exec_on_close :: "int option \<Rightarrow> effect list" where
  "exec_on_close code = [CloseFire (or_zero code)]"

fun childEvent_handle :: "childEvent \<Rightarrow> effect list" where
  "childEvent_handle (StdoutData d) = stdout_on_data d"
| "childEvent_handle (StderrData d) = stderr_on_data d"
| "childEvent_handle (ChildClose c) = exec_on_close c"

text \<open>
  A whole run: \<open>runCommand\<close> returns, then the host runs the callbacks it was handed.
  For an error message with a handler it calls the handler with the user's pick; for a
  task with a custom execution it opens the terminal once and delivers the child's
  events to the handlers.
\<close>

fun callbacks :: "host \<Rightarrow> childEvent list \<Rightarrow> effect \<Rightarrow> effect list" where
  "callbacks h evs (ShowErrorMessage m items k) = thenHandler_run k (picked h)"
| "callbacks h evs (ExecuteTask t) =
     (case execution t of
        CustomExecution w command folder \<Rightarrow>
          pty_open h w command folder @ concat (map childEvent_handle evs)
      | ShellExecution c \<Rightarrow> [])"
| "callbacks h evs e = []"

definition run :: "host \<Rightarrow> workflow \<Rightarrow> string \<Rightarrow> childEvent list \<Rightarrow> effect list" where
  "run h w command evs =
     (let es = runCommand h w command in es @ concat (map (callbacks h evs) es))"

fun isSpawn :: "effect \<Rightarrow> bool" where
  "isSpawn (Spawn c d s) = True"
| "isSpawn e = False"

fun isExecuteTask :: "effect \<Rightarrow> bool" where
  "isExecuteTask (ExecuteTask t) = True"
| "isExecuteTask e = False"

fun isShowErrorMessage :: "effect \<Rightarrow> bool" where
  "isShowErrorMessage (ShowErrorMessage m i k) = True"
| "isShowErrorMessage e = False"

text \<open>
  The stdout contract as the specification words it, for comparison with the code: a
  newline is bare when no carriage return stands right before it in the chunk; bare
  newlines become carriage return and newline, every other character is kept.
  The flag says whether the character just read was a carriage return.
\<close>

fun spec_bare_from :: "bool \<Rightarrow> string \<Rightarrow> string" where
  "spec_bare_from afterCR [] = []"
| "spec_bare_from afterCR (c # cs) =
     (if c = LF \<and> \<not> afterCR then CR # LF # spec_bare_from False cs
      else c # spec_bare_from (c = CR) cs)"

definition spec_rewrite_bare_newlines :: "string \<Rightarrow> string" where
  "spec_rewrite_bare_newlines s = spec_bare_from False s"

section \<open>\<open>Act\<close>: the installation table and \<open>install\<close>\<close>

record act =
  installationCommands :: "(string \<times> string) list"
  prebuiltExecutables :: "(string \<times> string) list"

text \<open>
  The constructor, as a function of \<open>process.platform\<close>. The two tables are object
  literals; the lists hold their own properties in the order of the source.
\<close>

definition constructor :: "string \<Rightarrow> act" where
  "constructor platform =
     (if platform = ''win32'' then
        \<lparr> installationCommands =
            [(''Chocolatey'', ''choco install act-cli''),
             (''Winget'', ''winget install nektos.act''),
             (''Scoop'', ''scoop install act''),
             (''GitHub CLI'', ''gh extension install https://github.com/nektos/gh-act'')],
          prebuiltExecutables =
            [(''Windows 64-bit (arm64/aarch64)'',
              ''https://github.com/nektos/act/releases/latest/download/act_Windows_arm64.zip''),
             (''Windows 64-bit (amd64/x86_64)'',
              ''https://github.com/nektos/act/releases/latest/download/act_Windows_x86_64.zip''),
             (''Windows 32-bit (armv7)'',
              ''https://github.com/nektos/act/releases/latest/download/act_Windows_armv7.zip''),
             (''Windows 32-bit (i386/x86)'',
              ''https://github.com/nektos/act/releases/latest/download/act_Windows_i386.zip'')] \<rparr>
      else if platform = ''darwin'' then
        \<lparr> installationCommands =
            [(''Homebrew'', ''brew install act''),
             (''Nix'', ''nix run nixpkgs#act''),
             (''MacPorts'', ''sudo port install act''),
             (''GitHub CLI'', ''gh extension install https://github.com/nektos/gh-act'')],
          prebuiltExecutables =
            [(''macOS 64-bit (Apple Silicon)'',
              ''https://github.com/nektos/act/releases/latest/download/act_Darwin_arm64.tar.gz''),
             (''macOS 64-bit (Intel)'',
              ''https://github.com/nektos/act/releases/latest/download/act_Darwin_x86_64.tar.gz'')] \<rparr>
      else if platform = ''linux'' then
        \<lparr> installationCommands =
            [(''Homebrew'', ''brew install act''),
             (''Nix'', ''nix run nixpkgs#act''),
             (''AUR'', ''yay -Syu act''),
             (''COPR'', ''dnf copr enable goncalossilva/act && dnf install act-cli''),
             (''GitHub CLI'', ''gh extension install https://github.com/nektos/gh-act'')],
          prebuiltExecutables =
            [(''Linux 64-bit (arm64/aarch64)'',
              ''https://github.com/nektos/act/releases/latest/download/act_Linux_arm64.tar.gz''),
             (''Linux 64-bit (amd64/x86_64)'',
              ''https://github.com/nektos/act/releases/latest/download/act_Linux_x86_64.tar.gz''),
             (''Linux 32-bit (armv7)'',
              ''https://github.com/nektos/act/releases/latest/download/act_Linux_armv7.tar.gz''),
             (''Linux 32-bit (armv6)'',
              ''https://github.com/nektos/act/releases/latest/download/act_Linux_armv6.tar.gz''),
             (''Linux 32-bit (i386/x86)'',
              ''https://github.com/nektos/act/releases/latest/download/act_Linux_i386.tar.gz'')] \<rparr>
      else \<lparr> installationCommands = [], prebuiltExecutables = [] \<rparr>)"

text \<open>
  A property read \<open>obj[key]\<close> on an object literal: an own property first, then the
  prototype chain, which for an object literal is \<open>Object.prototype\<close>; its members
  are listed here.
\<close>

definition object_prototype_members :: "string list" where
  "object_prototype_members =
     [''constructor'', ''__defineGetter__'', ''__defineSetter__'', ''hasOwnProperty'',
      ''__lookupGetter__'', ''__lookupSetter__'', ''isPrototypeOf'',
      ''propertyIsEnumerable'', ''toString'', ''valueOf'', ''__proto__'',
      ''toLocaleString'']"

definition get_property :: "(string \<times> string) list \<Rightarrow> string \<Rightarrow> jsvalue" where
  "get_property obj key =
     (case map_of obj key of
        Some v \<Rightarrow> Str v
      | None \<Rightarrow> if key \<in> set object_prototype_members then Inherited key else Undefined)"

definition installTask :: "jsvalue \<Rightarrow> task" where
  "installTask command =
     \<lparr> name = ''nektos/act'',
       detail = ''Install nektos/act'',
       definition_type = ''GitHub Local Actions'',
       source = ''GitHub Local Actions'',
       scope = ScopeWorkspace,
       isBackground = True,
       presentation =
         \<lparr> reveal = RevealAlways, focus = False, clear = True, close = False,
           echo = True, panel = PanelShared, showReuseMessage = False \<rparr>,
       problemMatchers = [],
       runOptions = [],
       group = GroupBuild,
       execution = ShellExecution command \<rparr>"

text \<open>
  \<open>install\<close>: the read of the table, the test \<open>if (command)\<close>, and the call that
  builds \<open>new ShellExecution(command)\<close> and hands the task to the host.
\<close>

definition install :: "act \<Rightarrow> string \<Rightarrow> effect list" where
  "install a packageManager =
     (let command = get_property (installationCommands a) packageManager in
      if truthy command then [ExecuteTask (installTask command)] else [])"

section \<open>\<open>ConfigurationManager\<close>\<close>

text \<open>\<open>enum Platform\<close> and \<open>enum Section\<close>.\<close>

definition windows :: string where
  "windows = ''win32''"

definition mac :: string where
  "mac = ''darwin''"

definition linux :: string where
  "linux = ''linux''"

datatype Section = actCommand | dockerDesktopPath

text \<open>
  The settings of the group \<open>githubLocalActions\<close>: a setting is a string or is
  \<open>undefined\<close>. \<open>set\<close> returns the store after the update.
\<close>

type_synonym configuration = "Section \<Rightarrow> string option"

definition ConfigurationManager_get :: "configuration \<Rightarrow> Section \<Rightarrow> string option" where
  "ConfigurationManager_get cfg s = cfg s"

definition ConfigurationManager_set ::
  "configuration \<Rightarrow> Section \<Rightarrow> string \<Rightarrow> configuration" where
  "ConfigurationManager_set cfg s v = cfg(s := Some v)"

text \<open>\<open>!v\<close> on a setting: true for \<open>undefined\<close> and for the empty string.\<close>

fun falsy :: "string option \<Rightarrow> bool" where
  "falsy None = True"
| "falsy (Some v) = (v = [])"

text \<open>
  \<open>initialize\<close> returns the store it leaves and the \<open>set\<close> calls it made, in
  order. \<open>Act.defaultActCommand\<close> is not in the sources at hand and is a parameter.
  \<open>initialize_actCommand\<close> is the part of the body after the first \<open>if\<close>
  statement, which the \<open>default\<close> branch of the \<open>switch\<close> skips by returning.
\<close>

definition initialize_actCommand ::
  "string \<Rightarrow> configuration \<Rightarrow> (Section \<times> string) list
     \<Rightarrow> configuration \<times> (Section \<times> string) list" where
  "initialize_actCommand defaultActCommand cfg writes =
     (if falsy (ConfigurationManager_get cfg actCommand)
      then (ConfigurationManager_set cfg actCommand defaultActCommand,
            writes @ [(actCommand, defaultActCommand)])
      else (cfg, writes))"

definition initialize ::
  "string \<Rightarrow> string \<Rightarrow> configuration \<Rightarrow> configuration \<times> (Section \<times> string) list" where
  "initialize platform defaultActCommand cfg =
     (if falsy (ConfigurationManager_get cfg dockerDesktopPath) then
        (if platform = windows then
           initialize_actCommand defaultActCommand
             (ConfigurationManager_set cfg dockerDesktopPath
                ''C:/Program Files/Docker/Docker/Docker Desktop.exe'')
             [(dockerDesktopPath, ''C:/Program Files/Docker/Docker/Docker Desktop.exe'')]
         else if platform = mac then
           initialize_actCommand defaultActCommand
             (ConfigurationManager_set cfg dockerDesktopPath ''/Applications/Docker.app'')
             [(dockerDesktopPath, ''/Applications/Docker.app'')]
         else (cfg, []))
      else initialize_actCommand defaultActCommand cfg [])"

section \<open>\<open>DecorationProvider\<close>\<close>

text \<open>
  The badges are the emoji of the source: the check mark button (U+2705), the warning
  sign (U+26A0 U+FE0F) and the cross mark (U+274C).
\<close>

datatype badge = CheckMark | WarningSign | CrossMark

record fileDecoration =
  badge :: badge
  color :: string

text \<open>
  The constants the provider compares with are declared in files that are not in the
  sources at hand (\<open>ComponentTreeItem.contextValue\<close>, \<open>WorkflowTreeItem.contextValue\<close>
  and \<open>enum Status\<close>); they are parameters.
\<close>

record decorationConstants =
  componentContextValue :: string
  workflowContextValue :: string
  statusEnabled :: string
  statusWarning :: string
  statusDisabled :: string

text \<open>
  \<open>new URLSearchParams(uri.query)\<close> is a parameter too: a function from the query
  string to the list of name and value pairs. \<open>params.get\<close> gives the value of the
  first pair with the name, or \<open>null\<close>.
\<close>

definition params_get :: "(string \<times> string) list \<Rightarrow> string \<Rightarrow> string option" where
  "params_get params k = map_of params k"

definition provideFileDecoration ::
  "decorationConstants \<Rightarrow> (string \<Rightarrow> (string \<times> string) list) \<Rightarrow> uri
     \<Rightarrow> fileDecoration option" where
  "provideFileDecoration K URLSearchParams u =
     (let params = URLSearchParams (query u) in
      if scheme u = componentContextValue K then
        (if params_get params ''status'' = Some (statusEnabled K) then
           Some \<lparr> badge = CheckMark, color = ''GitHubLocalActions.green'' \<rparr>
         else if params_get params ''status'' = Some (statusWarning K) then
           Some \<lparr> badge = WarningSign, color = ''GitHubLocalActions.yellow'' \<rparr>
         else if params_get params ''status'' = Some (statusDisabled K) then
           Some \<lparr> badge = CrossMark, color = ''GitHubLocalActions.red'' \<rparr>
         else None)
      else if scheme u = workflowContextValue K then
        (if \<not> falsy (params_get params ''error'') then
           Some \<lparr> badge = CrossMark, color = ''GitHubLocalActions.red'' \<rparr>
         else None)
      else None)"

section \<open>Concrete inputs\<close>

definition file_uri :: "string \<Rightarrow> uri" where
  "file_uri p = \<lparr> scheme = ''file'', query = [], fsPath = p \<rparr>"

definition workflow_ci :: workflow where
  "workflow_ci =
     \<lparr> workflow_name = ''ci'',
       workflow_uri = file_uri ''/repo/.github/workflows/ci.yml'' \<rparr>"

definition workflow_nested :: workflow where
  "workflow_nested =
     \<lparr> workflow_name = ''a/b'',
       workflow_uri = file_uri ''/repo/.github/workflows/a/b.yml'' \<rparr>"

definition workflow_windows :: workflow where
  "workflow_windows =
     \<lparr> workflow_name = ''ci'',
       workflow_uri =
         file_uri ([CHR ''c'', CHR '':'', CHR 0x5C] @ ''repo'' @ [CHR 0x5C] @ ''.github''
                   @ [CHR 0x5C] @ ''workflows'' @ [CHR 0x5C] @ ''ci.yml'') \<rparr>"

definition folder_repo :: workspaceFolder where
  "folder_repo = \<lparr> folder_uri = file_uri ''/repo'' \<rparr>"

definition host_unready :: host where
  "host_unready =
     \<lparr> unreadyComponents =
         [\<lparr> component_name = ''nektos/act'' \<rparr>, \<lparr> component_name = ''Docker Engine'' \<rparr>],
       getWorkspaceFolder = (\<lambda>u. Some folder_repo),
       shell = ''/bin/bash'',
       localeTime = ''10:15:00 AM'',
       picked = Some ''Fix...'' \<rparr>"

definition host_outside :: host where
  "host_outside =
     \<lparr> unreadyComponents = [],
       getWorkspaceFolder = (\<lambda>u. None),
       shell = ''/bin/bash'',
       localeTime = ''10:15:00 AM'',
       picked = None \<rparr>"

definition host_ready :: host where
  "host_ready =
     \<lparr> unreadyComponents = [],
       getWorkspaceFolder = (\<lambda>u. Some folder_repo),
       shell = ''/bin/bash'',
       localeTime = ''10:15:00 AM'',
       picked = None \<rparr>"

definition constants_example :: decorationConstants where
  "constants_example =
     \<lparr> componentContextValue = ''component'',
       workflowContextValue = ''workflow'',
       statusEnabled = ''Enabled'',
       statusWarning = ''Warning'',
       statusDisabled = ''Disabled'' \<rparr>"

section \<open>Facts about the library functions\<close>

lemma replaceAll_single:
  "replaceAll [x] rep s = concat (map (\<lambda>c. if c = x then rep else [c]) s)"
  by (induction s) auto

lemma spec_bare_no_CR:
  assumes "CR \<notin> set s"
  shows "spec_bare_from False s = concat (map (\<lambda>c. if c = LF then CRLF else [c]) s)"
  using assms by (induction s) (auto simp: CRLF_def)

lemma last_part_suffix:
  assumes "\<forall>c\<in>set b. \<not> sep c" and "b \<noteq> []" and "pre = [] \<or> sep (last pre)"
  shows "last_part sep (pre @ b) = b"
proof -
  from assms(2) obtain x xs where rb: "rev b = x # xs"
    by (cases "rev b") auto
  then have "x \<in> set b"
    by (metis list.set_intros(1) set_rev)
  with assms(1) have "\<not> sep x" by blast
  with rb have d: "dropWhile sep (rev b @ rev pre) = rev b @ rev pre"
    by simp
  have "takeWhile (\<lambda>c. \<not> sep c) (rev pre) = []"
  proof (cases pre rule: rev_cases)
    case Nil
    then show ?thesis by simp
  next
    case (snoc ys y)
    with assms(3) show ?thesis by simp
  qed
  moreover have "takeWhile (\<lambda>c. \<not> sep c) (rev b @ rev pre)
                   = rev b @ takeWhile (\<lambda>c. \<not> sep c) (rev pre)"
    by (rule takeWhile_append2) (use assms(1) in simp)
  ultimately have "takeWhile (\<lambda>c. \<not> sep c) (rev b @ rev pre) = rev b"
    by simp
  with d show ?thesis
    by (simp add: last_part_def)
qed

lemma last_part_after_root:
  assumes "\<forall>c\<in>set b. \<not> sep c" and "b \<noteq> []" and "pre = [] \<or> sep (last pre)"
    and "r \<le> length pre"
  shows "last_part sep (drop r (pre @ b)) = b"
proof -
  have "drop r pre = [] \<or> sep (last (drop r pre))"
  proof (cases "r < length pre")
    case True
    then have "pre \<noteq> []" by auto
    with assms(3) True show ?thesis by (simp add: last_drop)
  next
    case False
    then show ?thesis by simp
  qed
  then have "last_part sep (drop r pre @ b) = b"
    by (rule last_part_suffix [OF assms(1,2)])
  with assms(4) show ?thesis by simp
qed

lemma posix_rootEnd_le:
  assumes "\<forall>c\<in>set b. c \<noteq> CHR ''/''" and "b \<noteq> []"
  shows "posix_rootEnd (pre @ b) \<le> length pre"
proof (cases pre)
  case Nil
  from assms have "hd b \<noteq> CHR ''/''" by (cases b) auto
  with Nil assms(2) show ?thesis by (simp add: posix_rootEnd_def)
next
  case (Cons a as)
  then show ?thesis by (simp add: posix_rootEnd_def)
qed

lemma path_parse_base_suffix:
  assumes "\<forall>c\<in>set b. \<not> separator platform c" and "b \<noteq> []"
    and "pre = [] \<or> separator platform (last pre)"
    and "platform = ''win32'' \<longrightarrow> win32_rootEnd (pre @ b) \<le> length pre"
  shows "path_parse_base platform (pre @ b) = b"
proof (cases "platform = ''win32''")
  case True
  with assms have "\<forall>c\<in>set b. \<not> isPathSeparator c"
    and "pre = [] \<or> isPathSeparator (last pre)"
    and "win32_rootEnd (pre @ b) \<le> length pre"
    by (simp_all add: separator_def)
  from last_part_after_root [OF this(1) assms(2) this(2,3)] True show ?thesis
    by (simp add: path_parse_base_def)
next
  case False
  with assms(1) have nb: "\<forall>c\<in>set b. \<not> isPosixPathSeparator c"
    by (simp add: separator_def)
  then have "\<forall>c\<in>set b. c \<noteq> CHR ''/''"
    by (simp add: isPosixPathSeparator_def)
  then have r: "posix_rootEnd (pre @ b) \<le> length pre"
    using assms(2) by (rule posix_rootEnd_le)
  from False assms(3) have "pre = [] \<or> isPosixPathSeparator (last pre)"
    by (simp add: separator_def)
  from last_part_after_root [OF nb assms(2) this r] False show ?thesis
    by (simp add: path_parse_base_def)
qed

text \<open>
  On Windows the root never reaches the file name of a file in a \<open>.github\<close>,
  \<open>workflows\<close> directory, whatever the folder above it; for a drive path it is the
  drive, the colon and the separator.
\<close>

lemma takeWhile_length_le:
  assumes "i < length xs" and "\<not> P (xs ! i)"
  shows "length (takeWhile P xs) \<le> i"
  using assms
proof (induction xs arbitrary: i)
  case Nil
  then show ?case by simp
next
  case (Cons x xs)
  show ?case
  proof (cases i)
    case 0
    with Cons.prems show ?thesis by simp
  next
    case (Suc k)
    with Cons.prems have "length (takeWhile P xs) \<le> k"
      by (intro Cons.IH) simp_all
    with Suc show ?thesis by simp
  qed
qed

lemma scan_le:
  assumes "n \<le> i" and "i < length xs" and "\<not> P (xs ! i)"
  shows "n + length (takeWhile P (drop n xs)) \<le> i"
proof -
  have "length (takeWhile P (drop n xs)) \<le> i - n"
    by (rule takeWhile_length_le) (use assms in simp_all)
  with assms(1) show ?thesis by simp
qed

lemma win32_rootEnd_le:
  assumes "2 \<le> a" and "a < b" and "b < k" and "k < length path"
    and "isPathSeparator (path ! a)" and "\<not> isPathSeparator (path ! b)"
    and "isPathSeparator (path ! k)"
  shows "win32_rootEnd path \<le> Suc k"
proof -
  let ?j1 = "2 + length (takeWhile (\<lambda>c. \<not> isPathSeparator c) (drop 2 path))"
  let ?j2 = "?j1 + length (takeWhile isPathSeparator (drop ?j1 path))"
  let ?j3 = "?j2 + length (takeWhile (\<lambda>c. \<not> isPathSeparator c) (drop ?j2 path))"
  have j1: "?j1 \<le> a"
    by (rule scan_le) (use assms in simp_all)
  have j2: "?j2 \<le> b"
    by (rule scan_le) (use assms j1 in simp_all)
  have j3: "?j3 \<le> k"
    by (rule scan_le) (use assms j2 in simp_all)
  from j3 assms(4) have "?j3 \<noteq> length path" by simp
  with j3 assms(1-4) show ?thesis
    by (simp add: win32_rootEnd_def Let_def)
qed

lemma win32_rootEnd_conventional:
  assumes "isPathSeparator s2" and "isPathSeparator s3" and "leaf \<noteq> []"
  shows "win32_rootEnd (folder @ [s1] @ ''.github'' @ [s2] @ ''workflows'' @ [s3] @ leaf)
           \<le> length (folder @ [s1] @ ''.github'' @ [s2] @ ''workflows'' @ [s3])"
proof -
  let ?path = "folder @ [s1] @ ''.github'' @ [s2] @ ''workflows'' @ [s3] @ leaf"
  let ?n = "length folder"
  have a: "?path ! (?n + 8) = s2"
    by (simp add: nth_append)
  have b: "?path ! (?n + 9) = CHR ''w''"
    by (simp add: nth_append)
  have k: "?path ! (?n + 18) = s3"
    by (simp add: nth_append)
  have "win32_rootEnd ?path \<le> Suc (?n + 18)"
  proof (rule win32_rootEnd_le [where a = "?n + 8" and b = "?n + 9"])
    show "isPathSeparator (?path ! (?n + 8))"
      using a assms(1) by simp
    show "\<not> isPathSeparator (?path ! (?n + 9))"
      unfolding b by (simp add: isPathSeparator_def)
    show "isPathSeparator (?path ! (?n + 18))"
      using k assms(2) by simp
    show "?n + 18 < length ?path"
      using assms(3) by (cases leaf) simp_all
  qed simp_all
  then show ?thesis by simp
qed

lemma win32_rootEnd_drive:
  assumes "isWindowsDeviceRoot l" and "isPathSeparator s" and "rest \<noteq> []"
  shows "win32_rootEnd (l # CHR '':'' # s # rest) = 3"
proof -
  from assms(1) have "\<not> isPathSeparator l"
    by (auto simp: isWindowsDeviceRoot_def isPathSeparator_def Let_def)
  with assms show ?thesis
    by (cases rest) (simp_all add: win32_rootEnd_def)
qed

section \<open>The shape of a run\<close>

lemma handlers_no_spawn: "filter isSpawn (concat (map childEvent_handle evs)) = []"
proof (induction evs)
  case Nil
  show ?case by simp
next
  case (Cons e evs)
  then show ?case
    by (cases e) (simp_all add: stdout_on_data_def stderr_on_data_def exec_on_close_def)
qed

lemma handlers_no_task: "filter isExecuteTask (concat (map childEvent_handle evs)) = []"
proof (induction evs)
  case Nil
  show ?case by simp
next
  case (Cons e evs)
  then show ?case
    by (cases e) (simp_all add: stdout_on_data_def stderr_on_data_def exec_on_close_def)
qed

lemma header_no_spawn: "filter isSpawn (map WriteFire ls) = []"
  by (induction ls) simp_all

lemma thenHandler_no_spawn: "filter isSpawn (thenHandler_run k v) = []"
  by (cases k) simp_all

lemma thenHandler_no_task: "filter isExecuteTask (thenHandler_run k v) = []"
  by (cases k) simp_all

lemma run_unready:
  assumes "unreadyComponents h \<noteq> []"
  shows "run h w command evs =
           [GetUnreadyComponents,
            ShowErrorMessage
              (''The following required components are not ready: ''
                 @ join '', '' (map component_name (unreadyComponents h)))
              [''Fix...''] FixHandler]
           @ thenHandler_run FixHandler (picked h)"
  using assms by (simp add: run_def runCommand_def)

lemma run_no_workspace:
  assumes "unreadyComponents h = []" and "getWorkspaceFolder h (workflow_uri w) = None"
  shows "run h w command evs =
           [GetUnreadyComponents, GetWorkspaceFolder (workflow_uri w),
            ShowErrorMessage ''Failed to detect workspace folder'' [] NoHandler]"
  using assms by (simp add: run_def runCommand_def)

lemma run_ready:
  assumes "unreadyComponents h = []" and "getWorkspaceFolder h (workflow_uri w) = Some folder"
  shows "run h w command evs =
           [GetUnreadyComponents, GetWorkspaceFolder (workflow_uri w),
            ExecuteTask (workflowTask w command folder)]
           @ map WriteFire (header h w command)
           @ [Spawn command (fsPath (folder_uri folder)) (shell h)]
           @ concat (map childEvent_handle evs)"
  using assms by (simp add: run_def runCommand_def workflowTask_def pty_open_def)

lemma run_starts: "\<exists>t'. run h w command evs = GetUnreadyComponents # t'"
  by (simp add: run_def runCommand_def Let_def split: option.splits)

text \<open>A trace with one spawn splits around it in one way only.\<close>

lemma spawn_unique:
  assumes "filter isSpawn P = []" and "isSpawn s'" and "P @ s # R = pre @ s' # post"
    and "filter isSpawn R = []" and "isSpawn s"
  shows "pre = P \<and> s' = s \<and> post = R"
  using assms
proof (induction P arbitrary: pre)
  case Nil
  show ?case
  proof (cases pre)
    case Nil
    with Nil.prems show ?thesis by simp
  next
    case (Cons a as)
    with Nil.prems have "R = as @ s' # post" by simp
    with Nil.prems(2,4) show ?thesis by simp
  qed
next
  case (Cons a P)
  show ?case
  proof (cases pre)
    case Nil
    with Cons.prems have "a = s'" by simp
    with Cons.prems(1,2) show ?thesis by simp
  next
    case (Cons b bs)
    with Cons.prems have eq: "P @ s # R = bs @ s' # post" and ab: "a = b" by simp_all
    from Cons.prems(1) have "filter isSpawn P = []" by (simp split: if_splits)
    from Cons.IH [OF this Cons.prems(2) eq Cons.prems(4,5)] ab Cons show ?thesis by simp
  qed
qed

section \<open>Claims about running a workflow\<close>

text \<open>
  C1. When the readiness check returns at least one unready component, the whole run
  consists of the readiness query and one error message: the message lists exactly the
  names of the unready components, joined with a comma and a space, and offers the item
  \<open>Fix...\<close>, whose handler focuses the components view when the user picks it. No
  task is registered and no subprocess is spawned, whatever the child events offered.
\<close>

theorem runCommand_unready_reports:
  assumes "unreadyComponents h \<noteq> []"
  shows "run h w command evs =
           [GetUnreadyComponents,
            ShowErrorMessage
              (''The following required components are not ready: ''
                 @ join '', '' (map component_name (unreadyComponents h)))
              [''Fix...''] FixHandler]
           @ (if picked h = Some ''Fix...'' then [ExecuteCommand ''components.focus''] else [])
         \<and> filter isSpawn (run h w command evs) = []
         \<and> filter isExecuteTask (run h w command evs) = []"
  using assms by (simp add: run_unready)

theorem runCommand_unready_reports_witness:
  "unreadyComponents host_unready \<noteq> []
   \<and> run host_unready workflow_ci ''act'' [StdoutData ''x''] =
       [GetUnreadyComponents,
        ShowErrorMessage
          ''The following required components are not ready: nektos/act, Docker Engine''
          [''Fix...''] FixHandler,
        ExecuteCommand ''components.focus'']"
  using runCommand_unready_reports [of host_unready workflow_ci "''act''" "[StdoutData ''x'']"]
  by (simp add: host_unready_def)

text \<open>
  C2, as amended. Let the workflow's file path be \<open>W.yml\<close>, or end in a path
  separator of the platform followed by \<open>W.yml\<close>, where \<open>W\<close> holds no path
  separator of the platform (the slash; on Windows also the backslash), and let, on
  Windows, the root of the path (a drive prefix or a UNC server and share) end before
  \<open>W.yml\<close>. Then \<open>runWorkflow\<close> runs \<open>runCommand\<close> with exactly the command
  \<open>act -W ".github/workflows/W.yml"\<close>. This covers every workflow named \<open>W\<close>
  with such a \<open>W\<close> in the file \<open>W.yml\<close>; the display name itself plays no part.
\<close>

theorem runWorkflow_command_of_base:
  assumes "\<forall>c\<in>set W. \<not> separator platform c"
    and "fsPath (workflow_uri w) = pre @ W @ ''.yml''"
    and "pre = [] \<or> separator platform (last pre)"
    and "platform = ''win32'' \<longrightarrow> win32_rootEnd (fsPath (workflow_uri w)) \<le> length pre"
  shows "runWorkflow_command platform w =
           ''act -W '' @ [CHR 0x22] @ ''.github/workflows/'' @ W @ ''.yml'' @ [CHR 0x22]
         \<and> runWorkflow platform h w =
             runCommand h w
               (''act -W '' @ [CHR 0x22] @ ''.github/workflows/'' @ W @ ''.yml'' @ [CHR 0x22])"
proof -
  have b: "\<forall>c\<in>set (W @ ''.yml''). \<not> separator platform c"
    using assms(1)
    by (auto simp: separator_def isPathSeparator_def isPosixPathSeparator_def)
  have "path_parse_base platform (pre @ (W @ ''.yml'')) = W @ ''.yml''"
    by (rule path_parse_base_suffix [OF b]) (use assms in simp_all)
  with assms(2) have "path_parse_base platform (fsPath (workflow_uri w)) = W @ ''.yml''"
    by simp
  then show ?thesis
    by (simp add: runWorkflow_def runWorkflow_command_def base_def Workflows_def)
qed

theorem runWorkflow_command_of_base_witness:
  \<open>CHR ''/'' \<notin> set ''ci''
   \<and> fsPath (workflow_uri workflow_ci) = ''/repo/.github/workflows/'' @ ''ci'' @ ''.yml''
   \<and> runWorkflow_command ''linux'' workflow_ci = ''act -W ".github/workflows/ci.yml"''
   \<and> CHR 0x5C \<notin> set ''ci''
   \<and> fsPath (workflow_uri workflow_windows) =
       ([CHR ''c'', CHR '':'', CHR 0x5C] @ ''repo'' @ [CHR 0x5C] @ ''.github''
        @ [CHR 0x5C] @ ''workflows'' @ [CHR 0x5C]) @ ''ci'' @ ''.yml''
   \<and> win32_rootEnd (fsPath (workflow_uri workflow_windows)) = 3
   \<and> runWorkflow_command ''win32'' workflow_windows = ''act -W ".github/workflows/ci.yml"''\<close>
proof -
  have r: "win32_rootEnd (fsPath (workflow_uri workflow_windows)) = 3"
    by (simp add: workflow_windows_def file_uri_def win32_rootEnd_def isPathSeparator_def
        isWindowsDeviceRoot_def)
  have \<open>runWorkflow_command ''linux'' workflow_ci = ''act -W ".github/workflows/ci.yml"''\<close>
    using runWorkflow_command_of_base
      [of "''ci''" "''linux''" workflow_ci "''/repo/.github/workflows/''"]
    by (simp add: workflow_ci_def file_uri_def separator_def isPosixPathSeparator_def)
  moreover
  have \<open>runWorkflow_command ''win32'' workflow_windows = ''act -W ".github/workflows/ci.yml"''\<close>
    using r runWorkflow_command_of_base
      [of "''ci''" "''win32''" workflow_windows
          "[CHR ''c'', CHR '':'', CHR 0x5C] @ ''repo'' @ [CHR 0x5C] @ ''.github''
           @ [CHR 0x5C] @ ''workflows'' @ [CHR 0x5C]"]
    by (simp add: workflow_windows_def file_uri_def separator_def isPathSeparator_def)
  ultimately show ?thesis
    using r by (simp add: workflow_ci_def workflow_windows_def file_uri_def)
qed

text \<open>
  C2 as stated fails for a name that holds a path separator: the workflow named
  \<open>a/b\<close> in the file \<open>.github/workflows/a/b.yml\<close> has a path that ends in the
  name followed by \<open>.yml\<close>, and the command names \<open>b.yml\<close>, the file's base
  name, not \<open>a/b.yml\<close>.
\<close>

theorem runWorkflow_command_counterexample:
  \<open>workflow_name workflow_nested = ''a/b''
   \<and> fsPath (workflow_uri workflow_nested) = ''/repo/.github/workflows/'' @ ''a/b'' @ ''.yml''
   \<and> runWorkflow_command ''linux'' workflow_nested = ''act -W ".github/workflows/b.yml"''
   \<and> runWorkflow_command ''linux'' workflow_nested \<noteq> ''act -W ".github/workflows/a/b.yml"''\<close>
  by (simp add: workflow_nested_def file_uri_def runWorkflow_command_def path_parse_base_def
      last_part_def posix_rootEnd_def isPosixPathSeparator_def base_def Workflows_def)

text \<open>
  C3, as amended. The text forwarded for a stdout chunk is the chunk with every newline
  character replaced by carriage return and newline, also a newline that already follows
  a carriage return, and every other character kept; the text forwarded for a stderr
  chunk is the chunk.
\<close>

theorem stdout_stderr_forwarding:
  "stdout_on_data data =
     [WriteFire (concat (map (\<lambda>c. if c = LF then [CR, LF] else [c]) data))]
   \<and> stderr_on_data data = [WriteFire data]"
  by (simp add: stdout_on_data_def stderr_on_data_def replaceAll_single CRLF_def)

text \<open>
  C3 as stated fails on a chunk that already holds a carriage return and newline pair:
  its newline is not bare, and the code still puts a carriage return before it.
\<close>

theorem stdout_forwarding_counterexample:
  "stdout_on_data [CHR ''a'', CR, LF, CHR ''b'']
     = [WriteFire [CHR ''a'', CR, CR, LF, CHR ''b'']]
   \<and> spec_rewrite_bare_newlines [CHR ''a'', CR, LF, CHR ''b'']
       = [CHR ''a'', CR, LF, CHR ''b'']
   \<and> stdout_on_data [CHR ''a'', CR, LF, CHR ''b'']
       \<noteq> [WriteFire (spec_rewrite_bare_newlines [CHR ''a'', CR, LF, CHR ''b''])]"
  by (simp add: stdout_on_data_def spec_rewrite_bare_newlines_def CRLF_def CR_def LF_def)

text \<open>
  C4. The close handler fires the close signal with the exit code \<open>N\<close> for every
  integer \<open>N\<close>, and with \<open>0\<close> when the code is undefined or null.
\<close>

theorem close_fires_exit_code:
  "exec_on_close (Some N) = [CloseFire N] \<and> exec_on_close None = [CloseFire 0]"
  by (simp add: exec_on_close_def)

text \<open>
  C5. When the workflow's file is in no workspace folder, \<open>runCommand\<close> shows an
  error message, and the run registers no task and spawns no subprocess. When the
  readiness check has passed, the run is the readiness query, the failed resolution and
  the message \<open>Failed to detect workspace folder\<close>.
\<close>

theorem runCommand_outside_workspace:
  assumes "getWorkspaceFolder h (workflow_uri w) = None"
  shows "filter isShowErrorMessage (runCommand h w command) \<noteq> []
         \<and> filter isSpawn (run h w command evs) = []
         \<and> filter isExecuteTask (run h w command evs) = []
         \<and> (if unreadyComponents h = []
            then run h w command evs =
                   [GetUnreadyComponents, GetWorkspaceFolder (workflow_uri w),
                    ShowErrorMessage ''Failed to detect workspace folder'' [] NoHandler]
            else hd (tl (run h w command evs)) =
                   ShowErrorMessage
                     (''The following required components are not ready: ''
                        @ join '', '' (map component_name (unreadyComponents h)))
                     [''Fix...''] FixHandler)"
proof (cases "unreadyComponents h = []")
  case True
  with assms show ?thesis
    by (simp add: run_no_workspace runCommand_def)
next
  case False
  then show ?thesis
    by (simp add: run_unready runCommand_def thenHandler_no_spawn thenHandler_no_task)
qed

theorem runCommand_outside_workspace_witness:
  "getWorkspaceFolder host_outside (workflow_uri workflow_ci) = None
   \<and> run host_outside workflow_ci ''act'' [ChildClose (Some 0)] =
       [GetUnreadyComponents, GetWorkspaceFolder (workflow_uri workflow_ci),
        ShowErrorMessage ''Failed to detect workspace folder'' [] NoHandler]"
  using runCommand_outside_workspace [of host_outside workflow_ci "''act''" "[ChildClose (Some 0)]"]
  by (simp add: host_outside_def)

text \<open>
  C6. In every run the readiness query comes before any workspace resolution. A spawn
  occurs only when no component is unready and the workspace folder resolved; what
  comes before it is then exactly the readiness query, the resolution, the registration
  of the task and the eight header lines, and the spawn is of the command, in the
  folder's path, with the host's shell. Every header line ends in carriage return and
  newline; the first three carry the workflow's name, its path and the command.
\<close>

theorem run_order:
  "(\<forall>pre post u. run h w command evs = pre @ GetWorkspaceFolder u # post
       \<longrightarrow> GetUnreadyComponents \<in> set pre)
   \<and> (\<forall>pre post c d s. run h w command evs = pre @ Spawn c d s # post
       \<longrightarrow> unreadyComponents h = []
         \<and> (\<exists>folder. getWorkspaceFolder h (workflow_uri w) = Some folder
               \<and> pre = [GetUnreadyComponents, GetWorkspaceFolder (workflow_uri w),
                         ExecuteTask (workflowTask w command folder)]
                        @ map WriteFire (header h w command)
               \<and> c = command \<and> d = fsPath (folder_uri folder) \<and> s = shell h))
   \<and> (\<forall>l \<in> set (header h w command). \<exists>p. l = p @ CRLF)
   \<and> header h w command ! 0 = ''Workflow:    '' @ workflow_name w @ CRLF
   \<and> header h w command ! 1 = ''Path:        '' @ fsPath (workflow_uri w) @ CRLF
   \<and> header h w command ! 2 = ''Command:     '' @ command @ CRLF"
proof (intro conjI allI impI ballI)
  fix pre post u
  assume eq: "run h w command evs = pre @ GetWorkspaceFolder u # post"
  obtain t' where "run h w command evs = GetUnreadyComponents # t'"
    using run_starts by blast
  with eq show "GetUnreadyComponents \<in> set pre"
    by (cases pre) auto
next
  fix pre post c d s
  assume eq: "run h w command evs = pre @ Spawn c d s # post"
  show "unreadyComponents h = []"
  proof (rule ccontr)
    assume "unreadyComponents h \<noteq> []"
    then have "filter isSpawn (run h w command evs) = []"
      by (simp add: run_unready thenHandler_no_spawn)
    with eq show False by simp
  qed
  then have ready: "unreadyComponents h = []" .
  show "\<exists>folder. getWorkspaceFolder h (workflow_uri w) = Some folder
               \<and> pre = [GetUnreadyComponents, GetWorkspaceFolder (workflow_uri w),
                         ExecuteTask (workflowTask w command folder)]
                        @ map WriteFire (header h w command)
               \<and> c = command \<and> d = fsPath (folder_uri folder) \<and> s = shell h"
  proof (cases "getWorkspaceFolder h (workflow_uri w)")
    case None
    with ready have "filter isSpawn (run h w command evs) = []"
      by (simp add: run_no_workspace)
    with eq show ?thesis by simp
  next
    case (Some folder)
    let ?P = "[GetUnreadyComponents, GetWorkspaceFolder (workflow_uri w),
               ExecuteTask (workflowTask w command folder)]
              @ map WriteFire (header h w command)"
    have t: "run h w command evs =
               ?P @ Spawn command (fsPath (folder_uri folder)) (shell h)
                  # concat (map childEvent_handle evs)"
      using run_ready [OF ready Some] by simp
    have P: "filter isSpawn ?P = []"
      by (simp add: header_no_spawn)
    have "pre = ?P \<and> Spawn c d s = Spawn command (fsPath (folder_uri folder)) (shell h)
            \<and> post = concat (map childEvent_handle evs)"
      by (rule spawn_unique [OF P _ _ handlers_no_spawn]) (use t eq in simp_all)
    with Some show ?thesis by simp
  qed
next
  fix l
  assume "l \<in> set (header h w command)"
  then show "\<exists>p. l = p @ CRLF"
    by (auto simp: header_def)
qed (simp_all add: header_def)

theorem run_order_witness:
  "run host_ready workflow_ci ''act'' [StdoutData [CHR ''o'', LF], ChildClose None] =
     ([GetUnreadyComponents, GetWorkspaceFolder (workflow_uri workflow_ci),
       ExecuteTask (workflowTask workflow_ci ''act'' folder_repo)]
      @ map WriteFire (header host_ready workflow_ci ''act''))
     @ Spawn ''act'' ''/repo'' ''/bin/bash''
     # [WriteFire [CHR ''o'', CR, LF], CloseFire 0]
   \<and> unreadyComponents host_ready = []
   \<and> getWorkspaceFolder host_ready (workflow_uri workflow_ci) = Some folder_repo
   \<and> GetUnreadyComponents \<in> set [GetUnreadyComponents]
   \<and> (\<exists>p. hd (header host_ready workflow_ci ''act'') = p @ CRLF)"
proof -
  let ?evs = "[StdoutData [CHR ''o'', LF], ChildClose None]"
  let ?pre = "[GetUnreadyComponents, GetWorkspaceFolder (workflow_uri workflow_ci),
               ExecuteTask (workflowTask workflow_ci ''act'' folder_repo)]
              @ map WriteFire (header host_ready workflow_ci ''act'')"
  let ?post = "[WriteFire [CHR ''o'', CR, LF], CloseFire 0]"
  note order = run_order [of host_ready workflow_ci "''act''" ?evs]
  have split: "run host_ready workflow_ci ''act'' ?evs
                 = ?pre @ Spawn ''act'' ''/repo'' ''/bin/bash'' # ?post"
    by (simp add: run_def runCommand_def host_ready_def workflowTask_def pty_open_def
        folder_repo_def file_uri_def stdout_on_data_def exec_on_close_def CRLF_def
        CR_def LF_def)
  from order split have "unreadyComponents host_ready = []
      \<and> (\<exists>folder. getWorkspaceFolder host_ready (workflow_uri workflow_ci) = Some folder
            \<and> ?pre = [GetUnreadyComponents, GetWorkspaceFolder (workflow_uri workflow_ci),
                       ExecuteTask (workflowTask workflow_ci ''act'' folder)]
                      @ map WriteFire (header host_ready workflow_ci ''act''))"
    by blast
  moreover have "getWorkspaceFolder host_ready (workflow_uri workflow_ci) = Some folder_repo"
    by (simp add: host_ready_def)
  moreover have "hd (header host_ready workflow_ci ''act'') \<in> set (header host_ready workflow_ci ''act'')"
    by (simp add: header_def)
  with order have "\<exists>p. hd (header host_ready workflow_ci ''act'') = p @ CRLF"
    by blast
  ultimately show ?thesis
    using split by simp
qed

section \<open>Claims about installing the runner\<close>

lemma install_own_property:
  assumes "map_of (installationCommands a) packageManager = Some c" and "c \<noteq> []"
  shows "install a packageManager = [ExecuteTask (installTask (Str c))]"
  using assms by (simp add: install_def get_property_def)

lemma install_absent:
  assumes "map_of (installationCommands a) packageManager = None"
    and "packageManager \<notin> set object_prototype_members"
  shows "install a packageManager = []"
  using assms by (simp add: install_def get_property_def)

text \<open>
  C7 at the name \<open>constructor\<close>, which no platform's table holds: the read of the
  table finds the member inherited from \<open>Object.prototype\<close>, the test passes, and
  \<open>install\<close> goes on to build the shell execution from that value and to hand the
  task to the host.
\<close>

theorem install_inherited_name:
  "map_of (installationCommands (constructor platform)) ''constructor'' = None
   \<and> install (constructor platform) ''constructor''
       = [ExecuteTask (installTask (Inherited ''constructor''))]"
  by (simp add: constructor_def install_def get_property_def object_prototype_members_def)

text \<open>
  C8. The constructor sets the installation table from the platform: Windows, macOS and
  Linux get their fixed tables of package-manager names and command lines, with no name
  twice, and every other platform gets the empty table. No other operation of the model
  returns an \<open>act\<close>, so the table stays as constructed.
\<close>

theorem constructor_installationCommands:
  "installationCommands (constructor ''win32'') =
     [(''Chocolatey'', ''choco install act-cli''),
      (''Winget'', ''winget install nektos.act''),
      (''Scoop'', ''scoop install act''),
      (''GitHub CLI'', ''gh extension install https://github.com/nektos/gh-act'')]
   \<and> installationCommands (constructor ''darwin'') =
     [(''Homebrew'', ''brew install act''),
      (''Nix'', ''nix run nixpkgs#act''),
      (''MacPorts'', ''sudo port install act''),
      (''GitHub CLI'', ''gh extension install https://github.com/nektos/gh-act'')]
   \<and> installationCommands (constructor ''linux'') =
     [(''Homebrew'', ''brew install act''),
      (''Nix'', ''nix run nixpkgs#act''),
      (''AUR'', ''yay -Syu act''),
      (''COPR'', ''dnf copr enable goncalossilva/act && dnf install act-cli''),
      (''GitHub CLI'', ''gh extension install https://github.com/nektos/gh-act'')]
   \<and> (platform \<notin> {''win32'', ''darwin'', ''linux''}
        \<longrightarrow> installationCommands (constructor platform) = [])
   \<and> distinct (map fst (installationCommands (constructor platform)))"
  by (simp add: constructor_def)

theorem constructor_installationCommands_witness:
  "''freebsd'' \<notin> {''win32'', ''darwin'', ''linux''}
   \<and> installationCommands (constructor ''freebsd'') = []"
  using constructor_installationCommands [of "''freebsd''"] by simp

section \<open>Claims about the configuration manager and the decoration provider\<close>

text \<open>
  C9. On a platform that is neither Windows nor macOS, when the setting
  \<open>dockerDesktopPath\<close> is unset (or empty), \<open>initialize\<close> makes no \<open>set\<close> call
  and leaves the store as it was; in particular \<open>actCommand\<close> keeps the value it
  had, also when it had none.
\<close>

theorem initialize_default_platform_returns:
  assumes "platform \<noteq> windows" and "platform \<noteq> mac"
    and "falsy (ConfigurationManager_get cfg dockerDesktopPath)"
  shows "initialize platform defaultActCommand cfg = (cfg, [])
         \<and> ConfigurationManager_get (fst (initialize platform defaultActCommand cfg)) actCommand
             = ConfigurationManager_get cfg actCommand"
  using assms by (simp add: initialize_def)

theorem initialize_default_platform_returns_witness:
  "linux \<noteq> windows \<and> linux \<noteq> mac
   \<and> falsy (ConfigurationManager_get (\<lambda>s. None) dockerDesktopPath)
   \<and> initialize linux ''act'' (\<lambda>s. None) = ((\<lambda>s. None), [])
   \<and> ConfigurationManager_get (fst (initialize linux ''act'' (\<lambda>s. None))) actCommand = None"
  using initialize_default_platform_returns [of linux "\<lambda>s. None" "''act''"]
  by (simp add: linux_def windows_def mac_def ConfigurationManager_get_def)

text \<open>
  On the same platforms, with \<open>dockerDesktopPath\<close> set, the code does reach the
  \<open>actCommand\<close> check and writes the default.
\<close>

lemma initialize_reaches_actCommand:
  assumes "\<not> falsy (ConfigurationManager_get cfg dockerDesktopPath)"
    and "falsy (ConfigurationManager_get cfg actCommand)"
  shows "snd (initialize platform defaultActCommand cfg) = [(actCommand, defaultActCommand)]"
  using assms by (simp add: initialize_def initialize_actCommand_def)

text \<open>
  C10. With the three status strings distinct and the two context values distinct,
  \<open>provideFileDecoration\<close> returns a decoration \<open>d\<close> exactly when the scheme is the
  component context value and the \<open>status\<close> parameter is one of the three statuses,
  \<open>d\<close> being its badge and colour, or the scheme is the workflow context value and
  the \<open>error\<close> parameter is present with a non-empty value, \<open>d\<close> being the cross
  mark in red. In every other case it returns nothing.
\<close>

theorem provideFileDecoration_cases:
  assumes "distinct [statusEnabled K, statusWarning K, statusDisabled K]"
    and "componentContextValue K \<noteq> workflowContextValue K"
  shows "provideFileDecoration K URLSearchParams u = Some d \<longleftrightarrow>
           (scheme u = componentContextValue K \<and>
              (params_get (URLSearchParams (query u)) ''status'' = Some (statusEnabled K)
                 \<and> d = \<lparr> badge = CheckMark, color = ''GitHubLocalActions.green'' \<rparr>
               \<or> params_get (URLSearchParams (query u)) ''status'' = Some (statusWarning K)
                 \<and> d = \<lparr> badge = WarningSign, color = ''GitHubLocalActions.yellow'' \<rparr>
               \<or> params_get (URLSearchParams (query u)) ''status'' = Some (statusDisabled K)
                 \<and> d = \<lparr> badge = CrossMark, color = ''GitHubLocalActions.red'' \<rparr>))
           \<or> (scheme u = workflowContextValue K \<and>
                (\<exists>v. params_get (URLSearchParams (query u)) ''error'' = Some v \<and> v \<noteq> [])
                \<and> d = \<lparr> badge = CrossMark, color = ''GitHubLocalActions.red'' \<rparr>)"
proof (cases "scheme u = componentContextValue K")
  case True
  with assms show ?thesis
    by (auto simp: provideFileDecoration_def Let_def)
next
  case False
  have "\<not> falsy x \<longleftrightarrow> (\<exists>v. x = Some v \<and> v \<noteq> [])" for x
    by (cases x) simp_all
  with False show ?thesis
    by (auto simp: provideFileDecoration_def Let_def)
qed

theorem provideFileDecoration_cases_witness:
  "distinct [statusEnabled constants_example, statusWarning constants_example,
             statusDisabled constants_example]
   \<and> componentContextValue constants_example \<noteq> workflowContextValue constants_example
   \<and> provideFileDecoration constants_example (\<lambda>q. [(''error'', '''')])
        \<lparr> scheme = ''workflow'', query = ''error='', fsPath = [] \<rparr> = None
   \<and> provideFileDecoration constants_example (\<lambda>q. [(''status'', ''Warning'')])
        \<lparr> scheme = ''component'', query = ''status=Warning'', fsPath = [] \<rparr>
       = Some \<lparr> badge = WarningSign, color = ''GitHubLocalActions.yellow'' \<rparr>"
proof -
  have c: "distinct [statusEnabled constants_example, statusWarning constants_example,
                     statusDisabled constants_example]"
          "componentContextValue constants_example \<noteq> workflowContextValue constants_example"
    by (simp_all add: constants_example_def)
  have none: "provideFileDecoration constants_example (\<lambda>q. [(''error'', '''')])
                \<lparr> scheme = ''workflow'', query = ''error='', fsPath = [] \<rparr> \<noteq> Some d" for d
    using provideFileDecoration_cases [OF c, of "\<lambda>q. [(''error'', '''')]"
        "\<lparr> scheme = ''workflow'', query = ''error='', fsPath = [] \<rparr>" d]
    by (simp add: constants_example_def params_get_def)
  have some: "provideFileDecoration constants_example (\<lambda>q. [(''status'', ''Warning'')])
        \<lparr> scheme = ''component'', query = ''status=Warning'', fsPath = [] \<rparr>
       = Some \<lparr> badge = WarningSign, color = ''GitHubLocalActions.yellow'' \<rparr>"
    using provideFileDecoration_cases [OF c, of "\<lambda>q. [(''status'', ''Warning'')]"
        "\<lparr> scheme = ''component'', query = ''status=Warning'', fsPath = [] \<rparr>"
        "\<lparr> badge = WarningSign, color = ''GitHubLocalActions.yellow'' \<rparr>"]
    by (simp add: constants_example_def params_get_def)
  from none have "provideFileDecoration constants_example (\<lambda>q. [(''error'', '''')])
                \<lparr> scheme = ''workflow'', query = ''error='', fsPath = [] \<rparr> = None"
    by (cases "provideFileDecoration constants_example (\<lambda>q. [(''error'', '''')])
                \<lparr> scheme = ''workflow'', query = ''error='', fsPath = [] \<rparr>") auto
  with c some show ?thesis by simp
qed

end
